theory Spec2Isabelle
  imports Complex_Main "HOL-Library.Multiset" "HOL-Library.Char_ord" "HOL-Library.List_Lexorder"
begin

section \<open>Data model\<close>

text \<open>
  The analyzers of \<^verbatim>\<open>posicionador_institucional\<close> work on a pandas DataFrame of option
  contracts built by \<^verbatim>\<open>DataManager.obtener_datos_opciones\<close>, and return Python dicts of
  named numbers. Conventions of this embedding:
  \<^item> Python floats are read as real numbers and \<^verbatim>\<open>datetime\<close> values as an integer count of
    microseconds; \<^verbatim>\<open>volume\<close> and \<^verbatim>\<open>openInterest\<close> are counts (natural numbers).
  \<^item> A dict is an association list in insertion order; dict keys are spelt without
    diacritics (\<^verbatim>\<open>rotacion_promedio\<close> for the source's accented key).
  \<^item> A row of the frame is a record with one field per column the analyzers read or
    write. The columns \<^verbatim>\<open>strike\<close>, \<^verbatim>\<open>tipo\<close>, \<^verbatim>\<open>volume\<close> and \<^verbatim>\<open>openInterest\<close> are
    always there; the labels of the other columns present are listed in \<open>columnas\<close>,
    and a field whose label is not listed carries no information.
\<close>

datatype error = TypeError | AttributeError | KeyError

record contract =
  strike :: real
  tipo :: string
  volume :: nat
  openInterest :: nat
  expiration :: string
  moneyness :: real
  itm_otm :: string
  vol_oi_individual :: real
  peso_distancia :: real

record dataframe =
  filas :: "contract list"
  columnas :: "string list"

type_synonym analysis = "(string \<times> real) list"

text \<open>\<^verbatim>\<open>d.get(k, default)\<close> on a dict.\<close>

definition dict_get :: "(string \<times> 'v) list \<Rightarrow> string \<Rightarrow> 'v \<Rightarrow> 'v" where
  "dict_get d k dflt = (case map_of d k of None \<Rightarrow> dflt | Some v \<Rightarrow> v)"

text \<open>\<^verbatim>\<open>df[label] = values\<close>: the column is overwritten in place when the label exists
  and appended otherwise; rows are neither added nor removed.\<close>

definition asignar_columna :: "string \<Rightarrow> (contract \<Rightarrow> contract) \<Rightarrow> dataframe \<Rightarrow> dataframe" where
  "asignar_columna etiqueta f df =
     df\<lparr>filas := map f (filas df),
        columnas := (if etiqueta \<in> set (columnas df) then columnas df
                     else columnas df @ [etiqueta])\<rparr>"

text \<open>\<^verbatim>\<open>DataFrame.empty\<close>, for a frame that has its four base columns.\<close>

definition empty_df :: "dataframe \<Rightarrow> bool" where
  "empty_df df = (filas df = [])"

subsection \<open>Configuration (config.py)\<close>

definition UMBRAL_PCR_DEFENSIVO :: real where "UMBRAL_PCR_DEFENSIVO = 12 / 10"
definition UMBRAL_ROTACION :: real where "UMBRAL_ROTACION = 8 / 10"
definition PERCENTIL_VOLUMEN_ALTO :: real where "PERCENTIL_VOLUMEN_ALTO = 95"

section \<open>BaseAnalyzer\<close>

definition validar_datos :: "dataframe option \<Rightarrow> bool \<Rightarrow> bool" where
  "validar_datos df requerido =
     (if (case df of None \<Rightarrow> True | Some d \<Rightarrow> empty_df d) then \<not> requerido else True)"

section \<open>VolumeAnalyzer\<close>

text \<open>\<^verbatim>\<open>Series.sum\<close>, \<^verbatim>\<open>Series.mean\<close> and \<^verbatim>\<open>Series.quantile\<close> (linear interpolation between
  the two nearest order statistics). Mean and quantile of an empty series are NaN in
  pandas; \<open>analyze\<close> never takes them of an empty frame.\<close>

definition suma_volume :: "contract list \<Rightarrow> nat" where
  "suma_volume cs = sum_list (map volume cs)"

definition mean :: "real list \<Rightarrow> real" where
  "mean xs = sum_list xs / real (length xs)"

definition quantile :: "real list \<Rightarrow> real \<Rightarrow> real" where
  "quantile xs q =
     (let s = sort xs;
          h = q * real (length xs - 1);
          lo = nat \<lfloor>h\<rfloor>;
          hi = min (lo + 1) (length xs - 1)
      in s ! lo + (h - real lo) * (s ! hi - s ! lo))"

definition de_tipo :: "string \<Rightarrow> contract list \<Rightarrow> contract list" where
  "de_tipo t cs = filter (\<lambda>c. tipo c = t) cs"

definition rotacion :: "contract \<Rightarrow> real" where
  "rotacion c = (if openInterest c > 0 then real (volume c) / real (openInterest c) else 0)"

definition peso :: "contract \<Rightarrow> real" where
  "peso c = 1 / (\<bar>moneyness c - 1\<bar> + 1 / 100)"

definition volumen_ponderado :: "contract list \<Rightarrow> real" where
  "volumen_ponderado cs = sum_list (map (\<lambda>c. real (volume c) * peso_distancia c) cs)"

definition metricas_basicas :: "dataframe \<Rightarrow> analysis" where
  "metricas_basicas df =
     (let vol_calls = suma_volume (de_tipo ''CALL'' (filas df));
          vol_puts = suma_volume (de_tipo ''PUT'' (filas df))
      in [(''vol_total'', real (suma_volume (filas df))),
          (''vol_calls'', real vol_calls),
          (''vol_puts'', real vol_puts),
          (''vol_put_call_ratio'',
             if vol_calls > 0 then real vol_puts / real vol_calls else 0)])"

definition metricas_itm_otm :: "dataframe \<Rightarrow> analysis" where
  "metricas_itm_otm df =
     (if ''itm_otm'' \<in> set (columnas df) then
        (let vol_itm = suma_volume (filter (\<lambda>c. itm_otm c = ''ITM'') (filas df));
             vol_otm = suma_volume (filter (\<lambda>c. itm_otm c = ''OTM'') (filas df))
         in [(''vol_itm'', real vol_itm),
             (''vol_otm'', real vol_otm),
             (''itm_otm_ratio'', if vol_otm > 0 then real vol_itm / real vol_otm else 0)])
      else [])"

text \<open>The liquidity block reads the column it has just written into the frame.\<close>

definition metricas_liquidez :: "dataframe \<Rightarrow> analysis" where
  "metricas_liquidez df1 =
     [(''rotacion_promedio'', mean (map vol_oi_individual (filas df1))),
      (''alta_rotacion_count'',
         real (length (filter (\<lambda>c. vol_oi_individual c > 1) (filas df1))))]"

definition metricas_actividad :: "dataframe \<Rightarrow> analysis" where
  "metricas_actividad df1 =
     (let q_percentil =
            quantile (map (\<lambda>c. real (volume c)) (filas df1)) (PERCENTIL_VOLUMEN_ALTO / 100);
          contratos_alta = filter (\<lambda>c. real (volume c) > q_percentil) (filas df1)
      in [(''contratos_alta_actividad'', real (length contratos_alta)),
          (''vol_alta_actividad'', real (suma_volume contratos_alta))])"

definition metricas_ponderadas :: "dataframe \<Rightarrow> analysis" where
  "metricas_ponderadas df2 =
     (let vol_calls_pond = volumen_ponderado (de_tipo ''CALL'' (filas df2));
          vol_puts_pond = volumen_ponderado (de_tipo ''PUT'' (filas df2))
      in [(''vol_put_call_ponderado'',
             if vol_calls_pond > 0 then vol_puts_pond / vol_calls_pond else 0)])"

text \<open>
  \<open>VolumeAnalyzer.analyze\<close>. The argument is the caller's frame (or \<open>None\<close>); the result
  is the returned dict together with the caller's frame as the call leaves it, since
  the method assigns columns on the frame it is given.
\<close>

definition VolumeAnalyzer_analyze ::
  "dataframe option \<Rightarrow> error + (analysis \<times> dataframe option)" where
  "VolumeAnalyzer_analyze options_data =
     (if \<not> validar_datos options_data True then Inr ([], options_data)
      else case options_data of
        None \<Rightarrow> Inl TypeError
      | Some df \<Rightarrow>
          (let a = metricas_basicas df @ metricas_itm_otm df;
               df1 = asignar_columna ''vol_oi_individual''
                       (\<lambda>c. c\<lparr>vol_oi_individual := rotacion c\<rparr>) df;
               a = a @ metricas_liquidez df1 @ metricas_actividad df1
           in if ''moneyness'' \<in> set (columnas df1) then
                (let df2 = asignar_columna ''peso_distancia''
                             (\<lambda>c. c\<lparr>peso_distancia := peso c\<rparr>) df1
                 in Inr (a @ metricas_ponderadas df2, Some df2))
              else Inr (a, Some df1)))"

text \<open>Reading one key of a returned dict; \<open>None\<close> when the call raised or the key is absent.\<close>

definition metrica :: "error + (analysis \<times> dataframe option) \<Rightarrow> string \<Rightarrow> real option" where
  "metrica r k = (case r of Inl e \<Rightarrow> None | Inr (a, df) \<Rightarrow> map_of a k)"

section \<open>OpenInterestAnalyzer\<close>

definition suma_oi :: "contract list \<Rightarrow> nat" where
  "suma_oi cs = sum_list (map openInterest cs)"

text \<open>\<^verbatim>\<open>DataFrame.nlargest(n, column)\<close>: the \<open>n\<close> rows with the largest value of the
  column, largest first, rows of equal value in their order in the frame.\<close>

definition nlargest :: "nat \<Rightarrow> (contract \<Rightarrow> nat) \<Rightarrow> contract list \<Rightarrow> contract list" where
  "nlargest n col cs = take n (sort_key (\<lambda>c. - int (col c)) cs)"

text \<open>\<^verbatim>\<open>df.groupby(column)['openInterest'].sum()\<close>: one entry per distinct value of the
  column, in ascending order of that value.\<close>

definition groupby_oi :: "(contract \<Rightarrow> 'k::linorder) \<Rightarrow> contract list \<Rightarrow> ('k \<times> nat) list" where
  "groupby_oi col cs =
     map (\<lambda>k. (k, suma_oi (filter (\<lambda>c. col c = k) cs))) (sort (remdups (map col cs)))"

definition oi_basicas :: "dataframe \<Rightarrow> analysis" where
  "oi_basicas df =
     (let oi_calls = suma_oi (de_tipo ''CALL'' (filas df));
          oi_puts = suma_oi (de_tipo ''PUT'' (filas df))
      in [(''oi_total'', real (suma_oi (filas df))),
          (''oi_calls'', real oi_calls),
          (''oi_puts'', real oi_puts),
          (''oi_put_call_ratio'', if oi_calls > 0 then real oi_puts / real oi_calls else 0)])"

definition oi_concentration :: "dataframe \<Rightarrow> real" where
  "oi_concentration df =
     (let top_5_oi = suma_oi (nlargest 5 openInterest (filas df));
          total_oi = suma_oi (filas df)
      in if total_oi > 0 then real top_5_oi / real total_oi * 100 else 0)"

definition oi_itm_otm :: "dataframe \<Rightarrow> analysis" where
  "oi_itm_otm df =
     (if ''itm_otm'' \<in> set (columnas df) then
        (let oi_itm = suma_oi (filter (\<lambda>c. itm_otm c = ''ITM'') (filas df));
             oi_otm = suma_oi (filter (\<lambda>c. itm_otm c = ''OTM'') (filas df))
         in [(''oi_itm'', real oi_itm),
             (''oi_otm'', real oi_otm),
             (''oi_itm_otm_ratio'', if oi_otm > 0 then real oi_itm / real oi_otm else 0)])
      else [])"

definition oi_vencimientos :: "dataframe \<Rightarrow> analysis" where
  "oi_vencimientos df =
     (if ''expiration'' \<in> set (columnas df) then
        (let oi_por_exp = groupby_oi expiration (filas df)
         in [(''oi_vencimiento_cercano'',
                if length oi_por_exp > 0 then real (snd (hd oi_por_exp)) else 0),
             (''oi_vencimiento_lejano'',
                if length oi_por_exp > 0 then real (snd (last oi_por_exp)) else 0)])
      else [])"

text \<open>The strike ranking sorts the per-strike sums in descending order; strikes of equal
  sum are kept here in ascending strike order. When there is no strike at all the source
  stores \<open>None\<close> under \<^verbatim>\<open>top_strike_oi\<close>; that entry is left out here, and cannot arise
  once the frame has a row.\<close>

definition oi_strikes :: "dataframe \<Rightarrow> analysis" where
  "oi_strikes df =
     (let oi_por_strike = sort_key (\<lambda>(k, v). - int v) (groupby_oi strike (filas df))
      in (if length oi_por_strike > 0 then [(''top_strike_oi'', fst (hd oi_por_strike))] else [])
         @ [(''top_strike_oi_value'',
               if length oi_por_strike > 0 then real (snd (hd oi_por_strike)) else 0)])"

definition OpenInterestAnalyzer_analyze :: "dataframe option \<Rightarrow> error + analysis" where
  "OpenInterestAnalyzer_analyze options_data =
     (if \<not> validar_datos options_data True then Inr []
      else case options_data of
        None \<Rightarrow> Inl TypeError
      | Some df \<Rightarrow>
          Inr (oi_basicas df @ [(''oi_concentration'', oi_concentration df)]
               @ oi_itm_otm df @ oi_vencimientos df @ oi_strikes df))"

definition metrica_oi :: "error + analysis \<Rightarrow> string \<Rightarrow> real option" where
  "metrica_oi r k = (case r of Inl e \<Rightarrow> None | Inr a \<Rightarrow> map_of a k)"

text \<open>The concentration of sections 4.1 and 8 of the specification, written from its
  words: open interest is first summed per strike, over calls and puts alike, and the
  five largest per-strike sums are compared with the total.\<close>

definition oi_concentration_spec :: "dataframe \<Rightarrow> real" where
  "oi_concentration_spec df =
     (let por_strike = map snd (groupby_oi strike (filas df));
          top_5 = sum_list (take 5 (rev (sort por_strike)));
          total_oi = suma_oi (filas df)
      in if total_oi > 0 then real top_5 / real total_oi * 100 else 0)"

section \<open>Alerts\<close>

text \<open>An alert dict. \<open>prioridad\<close> is \<open>None\<close> when the dict has no such key; the text of
  the message is not kept, only the event categories it names (\<open>sujetos\<close>).\<close>

record alerta =
  tipo_alerta :: string
  prioridad :: "string option"
  valor :: real
  umbral :: "real option"
  sujetos :: "string list"

definition VolumeAnalyzer_get_alerts :: "analysis \<Rightarrow> alerta list" where
  "VolumeAnalyzer_get_alerts analysis_results =
     (let alerts = [];
          alerts =
            (if dict_get analysis_results ''vol_put_call_ratio'' 0 > UMBRAL_PCR_DEFENSIVO
             then alerts @ [\<lparr>tipo_alerta = ''VOLUMEN_PUTS_EXTREMO'', prioridad = Some ''ALTA'',
                    valor = dict_get analysis_results ''vol_put_call_ratio'' 0,
                    umbral = None, sujetos = []\<rparr>]
             else alerts);
          alerts =
            (if dict_get analysis_results ''rotacion_promedio'' 0 > UMBRAL_ROTACION
             then alerts @ [\<lparr>tipo_alerta = ''ALTA_ROTACION'', prioridad = Some ''MEDIA'',
                    valor = dict_get analysis_results ''rotacion_promedio'' 0,
                    umbral = None, sujetos = []\<rparr>]
             else alerts);
          alerts =
            (if dict_get analysis_results ''contratos_alta_actividad'' 0 > 5
             then alerts @ [\<lparr>tipo_alerta = ''CONCENTRACION_VOLUMEN'', prioridad = Some ''MEDIA'',
                    valor = dict_get analysis_results ''contratos_alta_actividad'' 0,
                    umbral = None, sujetos = []\<rparr>]
             else alerts)
      in alerts)"

definition OpenInterestAnalyzer_get_alerts :: "analysis \<Rightarrow> alerta list" where
  "OpenInterestAnalyzer_get_alerts analysis_results =
     (let alerts = [];
          alerts =
            (if dict_get analysis_results ''oi_put_call_ratio'' 0 > 13 / 10
             then alerts @ [\<lparr>tipo_alerta = ''OI_PUTS_EXTREMO'', prioridad = Some ''ALTA'',
                    valor = dict_get analysis_results ''oi_put_call_ratio'' 0,
                    umbral = None, sujetos = []\<rparr>]
             else alerts);
          alerts =
            (if dict_get analysis_results ''oi_concentration'' 0 > 40
             then alerts @ [\<lparr>tipo_alerta = ''OI_CONCENTRADO'', prioridad = Some ''MEDIA'',
                    valor = dict_get analysis_results ''oi_concentration'' 0,
                    umbral = None, sujetos = []\<rparr>]
             else alerts);
          oi_ratio = dict_get analysis_results ''oi_itm_otm_ratio'' 0;
          alerts =
            (if oi_ratio > 15 / 10 \<or> (oi_ratio > 0 \<and> oi_ratio < 3 / 10)
             then alerts @ [\<lparr>tipo_alerta = ''OI_ITM_OTM_ANOMALO'', prioridad = Some ''MEDIA'',
                    valor = oi_ratio, umbral = None, sujetos = []\<rparr>]
             else alerts)
      in alerts)"

section \<open>Events\<close>

text \<open>Time. A \<^verbatim>\<open>datetime\<close> is its distance from a fixed origin in microseconds;
  \<^verbatim>\<open>timedelta(days=n)\<close> is \<open>n\<close> days, and \<^verbatim>\<open>.days\<close> of a difference is its whole number of
  days, rounded down. \<^verbatim>\<open>datetime.now()\<close> is read once per query and is the argument
  \<open>ahora\<close> of the functions below.\<close>

definition un_dia :: int where
  "un_dia = 86400000000"

definition timedelta_days :: "int \<Rightarrow> int" where
  "timedelta_days n = n * un_dia"

definition days :: "int \<Rightarrow> int" where
  "days delta = delta div un_dia"

record evento_base =
  tipo_evento :: string
  fecha :: int
  dias_restantes :: "int option"

record evento = evento_base +
  simbolo :: string
  sector :: string

definition SECTORES :: "(string \<times> string list) list" where
  "SECTORES =
     [(''Indices'', [''SPY'', ''QQQ'', ''IWM'', ''DIA'']),
      (''Tecnologicas'', [''AAPL'', ''MSFT'', ''GOOGL'', ''AMZN'', ''NVDA'', ''TSLA'']),
      (''Energia'', [''XOM'', ''CVX'', ''COP'', ''SLB'', ''EOG'', ''MPC'']),
      (''Financieras'', [''JPM'', ''BAC'', ''WFC'', ''GS'', ''MS'']),
      (''Salud'', [''JNJ'', ''PFE'', ''UNH'', ''MRK'', ''ABT''])]"

fun buscar_sector :: "(string \<times> string list) list \<Rightarrow> string \<Rightarrow> string" where
  "buscar_sector [] s = ''Unknown''"
| "buscar_sector ((sec, syms) # rest) s = (if s \<in> set syms then sec else buscar_sector rest s)"

definition get_simbolo_sector :: "string \<Rightarrow> string" where
  "get_simbolo_sector s = buscar_sector SECTORES s"

text \<open>\<open>helpers.detectar_eventos_proximos\<close>: the calendar maps an event category to its
  dates; the comprehension walks the categories, then the dates of each.\<close>

definition detectar_eventos_proximos ::
  "(string \<times> int list) list \<Rightarrow> int \<Rightarrow> int \<Rightarrow> evento_base list" where
  "detectar_eventos_proximos eventos_calendario ahora dias_adelante =
     (let fecha_actual = ahora;
          fecha_limite = fecha_actual + timedelta_days dias_adelante
      in concat (map (\<lambda>(tipo_ev, fechas).
           map (\<lambda>f. \<lparr>tipo_evento = tipo_ev, fecha = f,
                      dias_restantes = Some (days (f - fecha_actual))\<rparr>)
               (filter (\<lambda>f. fecha_actual \<le> f \<and> f \<le> fecha_limite) fechas))
           eventos_calendario))"

text \<open>\<open>EventsAnalyzer.detectar_eventos_proximos\<close>, over the configured calendar
  \<^verbatim>\<open>Config.EVENTOS_CALENDARIO\<close>, here the argument \<open>calendario\<close>.\<close>

definition EventsAnalyzer_detectar_eventos_proximos ::
  "(string \<times> int list) list \<Rightarrow> int \<Rightarrow> string \<Rightarrow> int \<Rightarrow> evento list" where
  "EventsAnalyzer_detectar_eventos_proximos calendario ahora simb dias_adelante =
     (let fecha_actual = ahora;
          fecha_limite = fecha_actual + timedelta_days dias_adelante
      in concat (map (\<lambda>(tipo_ev, fechas).
           map (\<lambda>f. \<lparr>tipo_evento = tipo_ev, fecha = f,
                      dias_restantes = Some (days (f - fecha_actual)),
                      simbolo = simb, sector = get_simbolo_sector simb\<rparr>)
               (filter (\<lambda>f. fecha_actual \<le> f \<and> f \<le> fecha_limite) fechas))
           calendario))"


text \<open>The dict that \<open>EventsAnalyzer.analyze\<close> returns and \<open>get_alerts\<close> reads; a field is
  \<open>None\<close> when the dict has no such key, so the empty dict has every field \<open>None\<close>.\<close>

record analisis_eventos =
  eventos :: "evento list option"
  metricas_pre_evento :: "(string \<times> analysis) list option"
  concentracion_vencimientos :: "(string \<times> nat) list option"
  cantidad_eventos :: "nat option"

definition dict_vacio :: analisis_eventos where
  "dict_vacio = \<lparr>eventos = None, metricas_pre_evento = None,
                 concentracion_vencimientos = None, cantidad_eventos = None\<rparr>"

text \<open>Python's \<^verbatim>\<open>not d\<close> for an optional dict: true of \<open>None\<close> and of the empty dict.\<close>

definition falsy :: "analisis_eventos option \<Rightarrow> bool" where
  "falsy r = (case r of None \<Rightarrow> True | Some d \<Rightarrow> d = dict_vacio)"

definition alerta_pre_evento :: "string \<times> analysis \<Rightarrow> alerta list" where
  "alerta_pre_evento item =
     (let tipo_ev = fst item;
          pcr = dict_get (snd item) ''pcr_ratio'' 0
      in if pcr > 15 / 10 then
           [\<lparr>tipo_alerta = ''VOLUMEN_DEFENSIVO_PRE_EVENTO'', prioridad = Some ''MEDIA'',
             valor = pcr, umbral = Some (15 / 10), sujetos = [tipo_ev]\<rparr>]
         else if pcr > 0 \<and> pcr < 7 / 10 then
           [\<lparr>tipo_alerta = ''VOLUMEN_OFENSIVO_PRE_EVENTO'', prioridad = Some ''MEDIA'',
             valor = pcr, umbral = Some (7 / 10), sujetos = [tipo_ev]\<rparr>]
         else [])"

definition alerta_inminente :: "evento list \<Rightarrow> alerta list" where
  "alerta_inminente evs =
     (let eventos_inminentes =
            filter (\<lambda>e. (case dias_restantes e of None \<Rightarrow> 999 | Some d \<Rightarrow> d) < 7) evs
      in if eventos_inminentes \<noteq> [] then
           [\<lparr>tipo_alerta = ''EVENTO_INMINENTE'', prioridad = Some ''ALTA'',
             valor = real (length eventos_inminentes), umbral = None,
             sujetos = map tipo_evento eventos_inminentes\<rparr>]
         else [])"

definition alerta_multiples :: "evento list \<Rightarrow> alerta list" where
  "alerta_multiples evs =
     (if length evs > 3 then
        [\<lparr>tipo_alerta = ''MULTIPLES_EVENTOS'', prioridad = Some ''MEDIA'',
          valor = real (length evs), umbral = None, sujetos = []\<rparr>]
      else [])"

text \<open>\<open>EventsAnalyzer.get_alerts\<close>: the three rules append to one list, in this order.\<close>

definition EventsAnalyzer_get_alerts :: "string \<Rightarrow> analisis_eventos option \<Rightarrow> alerta list" where
  "EventsAnalyzer_get_alerts simb analisis_resultado =
     (if falsy analisis_resultado then []
      else case analisis_resultado of
        None \<Rightarrow> []
      | Some r \<Rightarrow>
          (let evs = (case eventos r of None \<Rightarrow> [] | Some es \<Rightarrow> es)
           in alerta_inminente evs
              @ (if evs \<noteq> [] then
                   (case metricas_pre_evento r of
                      None \<Rightarrow> []
                    | Some ms \<Rightarrow> concat (map alerta_pre_evento ms))
                 else [])
              @ alerta_multiples evs))"

section \<open>Consolidation and ordering of alerts\<close>

definition orden_prioridad :: "(string \<times> nat) list" where
  "orden_prioridad = [(''ALTA'', 1), (''MEDIA'', 2), (''BAJA'', 3)]"

definition clave_prioridad :: "'a alerta_scheme \<Rightarrow> nat" where
  "clave_prioridad x =
     dict_get orden_prioridad (case prioridad x of None \<Rightarrow> ''BAJA'' | Some p \<Rightarrow> p) 999"

text \<open>\<open>helpers.ordenar_alertas_por_prioridad\<close>. Python's \<^verbatim>\<open>sorted\<close> is a stable sort by
  the key; there is exactly one list that is a stable sorting of its input, and
  \<open>sort_key\<close> computes it.\<close>

definition ordenar_alertas_por_prioridad :: "'a alerta_scheme list \<Rightarrow> 'a alerta_scheme list" where
  "ordenar_alertas_por_prioridad alertas = sort_key clave_prioridad alertas"

text \<open>\<open>ReportGenerator.consolidar_alertas\<close>. The argument maps a symbol to the results
  of its analyzers, each result holding its alerts under \<^verbatim>\<open>alerts\<close> (\<open>None\<close>: no such
  key). Every alert is tagged with its symbol and analyzer, the alerts are collected
  in iteration order and then sorted.\<close>

record alerta_completa = alerta +
  simbolo_alerta :: string
  analizador :: string

definition completar :: "string \<Rightarrow> string \<Rightarrow> alerta \<Rightarrow> alerta_completa" where
  "completar simb analyzer_name a =
     \<lparr>tipo_alerta = tipo_alerta a, prioridad = prioridad a, valor = valor a,
      umbral = umbral a, sujetos = sujetos a,
      simbolo_alerta = simb, analizador = analyzer_name\<rparr>"

definition alertas_consolidadas ::
  "(string \<times> (string \<times> alerta list option) list) list \<Rightarrow> alerta_completa list" where
  "alertas_consolidadas analisis_resultados =
     concat (map (\<lambda>(simb, resultados_simbolo).
       concat (map (\<lambda>(analyzer_name, resultado).
         (case resultado of
            None \<Rightarrow> []
          | Some alerts \<Rightarrow> map (completar simb analyzer_name) alerts))
         resultados_simbolo))
       analisis_resultados)"

definition consolidar_alertas ::
  "(string \<times> (string \<times> alerta list option) list) list \<Rightarrow> alerta_completa list" where
  "consolidar_alertas analisis_resultados =
     ordenar_alertas_por_prioridad (alertas_consolidadas analisis_resultados)"

section \<open>Vocabulary of the statements\<close>

text \<open>The caller's frame after a call of \<open>VolumeAnalyzer.analyze\<close>.\<close>

definition marco :: "error + (analysis \<times> dataframe option) \<Rightarrow> dataframe option" where
  "marco r = (case r of Inl e \<Rightarrow> None | Inr (a, d) \<Rightarrow> d)"

text \<open>A row with its two derived cells blanked: what the snapshot builder delivered.\<close>

definition sin_derivadas :: "contract \<Rightarrow> contract" where
  "sin_derivadas c = c\<lparr>vol_oi_individual := 0, peso_distancia := 0\<rparr>"

section \<open>Example snapshots\<close>

text \<open>Rows as \<open>DataManager.obtener_datos_opciones\<close> builds them for an underlying at
  \<open>precio\<close>: moneyness is strike over price, and a call is in the money above 1, a put
  below 1.\<close>

definition contrato :: "real \<Rightarrow> real \<Rightarrow> string \<Rightarrow> string \<Rightarrow> nat \<Rightarrow> nat \<Rightarrow> contract" where
  "contrato precio k t e v oi =
     \<lparr>strike = k, tipo = t, volume = v, openInterest = oi, expiration = e,
      moneyness = k / precio,
      itm_otm = (if (t = ''CALL'' \<and> k / precio > 1) \<or> (t = ''PUT'' \<and> k / precio < 1)
                 then ''ITM'' else ''OTM''),
      vol_oi_individual = 0, peso_distancia = 0\<rparr>"

definition columnas_snapshot :: "string list" where
  "columnas_snapshot = [''expiration'', ''moneyness'', ''itm_otm'']"

text \<open>One strike, three expirations, a call and a put at each: 100 units of open interest.\<close>

definition cadena_un_strike :: dataframe where
  "cadena_un_strike =
     \<lparr>filas = [contrato 100 100 ''CALL'' ''2026-01-16'' 0 20,
               contrato 100 100 ''PUT'' ''2026-01-16'' 0 20,
               contrato 100 100 ''CALL'' ''2026-02-20'' 0 20,
               contrato 100 100 ''PUT'' ''2026-02-20'' 0 20,
               contrato 100 100 ''CALL'' ''2026-03-20'' 0 10,
               contrato 100 100 ''PUT'' ''2026-03-20'' 0 10],
      columnas = columnas_snapshot\<rparr>"

text \<open>Ten calls of volume 100 and ten puts of volume 200 (section 8 of the specification).\<close>

definition cadena_defensiva :: dataframe where
  "cadena_defensiva =
     \<lparr>filas = replicate 10 (contrato 100 105 ''CALL'' ''2026-01-16'' 100 50)
               @ replicate 10 (contrato 100 95 ''PUT'' ''2026-01-16'' 200 50),
      columnas = columnas_snapshot\<rparr>"

text \<open>Puts only: no call volume at all.\<close>

definition cadena_solo_puts :: dataframe where
  "cadena_solo_puts =
     \<lparr>filas = [contrato 100 95 ''PUT'' ''2026-01-16'' 30 40,
               contrato 100 90 ''PUT'' ''2026-01-16'' 12 7],
      columnas = columnas_snapshot\<rparr>"

text \<open>A call volume of 100 against a put volume of 130.\<close>

definition cadena_pcr_13 :: dataframe where
  "cadena_pcr_13 =
     \<lparr>filas = [contrato 100 105 ''CALL'' ''2026-01-16'' 100 400,
               contrato 100 95 ''PUT'' ''2026-01-16'' 130 400],
      columnas = columnas_snapshot\<rparr>"

text \<open>One contract with much open interest and little volume, one the other way round.\<close>

definition cadena_rotacion :: dataframe where
  "cadena_rotacion =
     \<lparr>filas = [contrato 100 105 ''CALL'' ''2026-01-16'' 10 1000,
               contrato 100 95 ''PUT'' ''2026-01-16'' 100 10],
      columnas = columnas_snapshot\<rparr>"

definition cadena_sin_oi :: dataframe where
  "cadena_sin_oi =
     \<lparr>filas = [contrato 100 105 ''CALL'' ''2026-01-16'' 10 0,
               contrato 100 95 ''PUT'' ''2026-01-16'' 100 0],
      columnas = columnas_snapshot\<rparr>"

text \<open>A call at the money (weight 100) and a put ten percent below (weight 100/11).\<close>

definition cadena_ponderada :: dataframe where
  "cadena_ponderada =
     \<lparr>filas = [contrato 100 100 ''CALL'' ''2026-01-16'' 10 5,
               contrato 100 90 ''PUT'' ''2026-01-16'' 11 5],
      columnas = columnas_snapshot\<rparr>"

definition cadena_vacia :: dataframe where
  "cadena_vacia = \<lparr>filas = [], columnas = columnas_snapshot\<rparr>"

subsection \<open>An event calendar and two results of the events analyzer\<close>







subsection \<open>Alerts to be ordered\<close>

definition alerta_ej :: "string \<Rightarrow> string option \<Rightarrow> alerta" where
  "alerta_ej t p = \<lparr>tipo_alerta = t, prioridad = p, valor = 1, umbral = None, sujetos = []\<rparr>"

definition alertas_ej :: "alerta list" where
  "alertas_ej =
     [alerta_ej ''ALTA_ROTACION'' (Some ''MEDIA''),
      alerta_ej ''VOLUMEN_PUTS_EXTREMO'' (Some ''ALTA''),
      alerta_ej ''SIN_PRIORIDAD'' None,
      alerta_ej ''OI_CONCENTRADO'' (Some ''MEDIA''),
      alerta_ej ''OI_PUTS_EXTREMO'' (Some ''ALTA'')]"

definition resultados_ej :: "(string \<times> (string \<times> alerta list option) list) list" where
  "resultados_ej =
     [(''SPY'', [(''volume_analyzer'', Some [alerta_ej ''ALTA_ROTACION'' (Some ''MEDIA'')]),
                 (''open_interest_analyzer'', Some [alerta_ej ''OI_PUTS_EXTREMO'' (Some ''ALTA'')])]),
      (''QQQ'', [(''volume_analyzer'', Some [alerta_ej ''VOLUMEN_PUTS_EXTREMO'' (Some ''ALTA''),
                                             alerta_ej ''ALTA_ROTACION'' (Some ''MEDIA'')]),
                 (''events_analyzer'', None)])]"

subsection \<open>A calendar at the edge of the window\<close>

text \<open>The query is made at midnight of day 739000; the calendar holds that very
  instant and the same hour one day later.\<close>

definition ahora_borde :: int where
  "ahora_borde = 739000 * un_dia"

definition calendario_borde :: "(string \<times> int list) list" where
  "calendario_borde = [(''quad_witching'', [739000 * un_dia, 739001 * un_dia])]"

subsection \<open>Open interest over twenty strikes\<close>

text \<open>Twenty strikes with five units of open interest each, three in the call and two
  in the put: 100 units in all.\<close>

definition strikes_20 :: "real list" where
  "strikes_20 = [55, 60, 65, 70, 75, 80, 85, 90, 95, 100,
                 105, 110, 115, 120, 125, 130, 135, 140, 145, 150]"

definition cadena_20_strikes :: dataframe where
  "cadena_20_strikes =
     \<lparr>filas = map (\<lambda>k. contrato 100 k ''CALL'' ''2026-01-16'' 0 3) strikes_20
             @ map (\<lambda>k. contrato 100 k ''PUT'' ''2026-01-16'' 0 2) strikes_20,
      columnas = columnas_snapshot\<rparr>"

section \<open>Auxiliary facts\<close>

lemma filas_asignar_columna: "filas (asignar_columna e f df) = map f (filas df)"
  by (simp add: asignar_columna_def)

lemma columnas_asignar_columna:
  "columnas (asignar_columna e f df) =
     (if e \<in> set (columnas df) then columnas df else columnas df @ [e])"
  by (simp add: asignar_columna_def)

lemma validar_requerido:
  "validar_datos od True \<longleftrightarrow> (\<exists>df. od = Some df \<and> filas df \<noteq> [])"
  by (cases od) (simp_all add: validar_datos_def empty_df_def)

lemma validar_no_requerido: "validar_datos od False"
  by (simp add: validar_datos_def)

lemma volumen_ponderado_asignado:
  "volumen_ponderado (de_tipo t
      (map ((\<lambda>c. c\<lparr>peso_distancia := peso c\<rparr>) \<circ> (\<lambda>c. c\<lparr>vol_oi_individual := rotacion c\<rparr>)) cs)) =
   sum_list (map (\<lambda>c. real (volume c) * peso c) (de_tipo t cs))"
  by (induction cs) (simp_all add: de_tipo_def volumen_ponderado_def peso_def)

lemma peso_positivo: "0 < peso c"
  by (simp add: peso_def add_pos_nonneg)

lemma peso_acotado: "peso c \<le> 100"
proof -
  have "1 / 100 \<le> \<bar>moneyness c - 1\<bar> + 1 / 100" by simp
  then have "1 / (\<bar>moneyness c - 1\<bar> + 1 / 100) \<le> 1 / (1 / 100)"
    by (intro divide_left_mono) simp_all
  then show ?thesis by (simp add: peso_def)
qed

lemma suma_ponderada_no_negativa: "0 \<le> sum_list (map (\<lambda>c. real (volume c) * peso c) cs)"
  by (rule sum_list_nonneg) (auto simp: less_imp_le[OF peso_positivo])

lemma ratio_de_analyze:
  assumes "filas df \<noteq> []"
  shows "metrica (VolumeAnalyzer_analyze (Some df)) ''vol_put_call_ratio'' =
     Some (if suma_volume (de_tipo ''CALL'' (filas df)) > 0
           then real (suma_volume (de_tipo ''PUT'' (filas df)))
                / real (suma_volume (de_tipo ''CALL'' (filas df)))
           else 0)"
  using assms
  by (simp add: VolumeAnalyzer_analyze_def validar_requerido metrica_def Let_def
      metricas_basicas_def)

lemma rotacion_de_analyze:
  assumes "filas df \<noteq> []"
  shows "metrica (VolumeAnalyzer_analyze (Some df)) ''rotacion_promedio'' =
     Some (sum_list (map rotacion (filas df)) / real (length (filas df)))"
  using assms
  by (simp add: VolumeAnalyzer_analyze_def validar_requerido metrica_def Let_def
      metricas_basicas_def metricas_itm_otm_def metricas_liquidez_def mean_def
      filas_asignar_columna o_def)

lemma alta_rotacion_de_analyze:
  assumes "filas df \<noteq> []"
  shows "metrica (VolumeAnalyzer_analyze (Some df)) ''alta_rotacion_count'' =
     Some (real (length (filter (\<lambda>c. rotacion c > 1) (filas df))))"
  using assms
  by (simp add: VolumeAnalyzer_analyze_def validar_requerido metrica_def Let_def
      metricas_basicas_def metricas_itm_otm_def metricas_liquidez_def
      filas_asignar_columna o_def filter_map)

lemma ponderado_de_analyze:
  assumes "filas df \<noteq> []" "''moneyness'' \<in> set (columnas df)"
  shows "metrica (VolumeAnalyzer_analyze (Some df)) ''vol_put_call_ponderado'' =
     Some (if sum_list (map (\<lambda>c. real (volume c) * peso c) (de_tipo ''CALL'' (filas df))) > 0
           then sum_list (map (\<lambda>c. real (volume c) * peso c) (de_tipo ''PUT'' (filas df)))
                / sum_list (map (\<lambda>c. real (volume c) * peso c) (de_tipo ''CALL'' (filas df)))
           else 0)"
  using assms
  by (simp add: VolumeAnalyzer_analyze_def validar_requerido metrica_def Let_def
      metricas_basicas_def metricas_itm_otm_def metricas_liquidez_def metricas_actividad_def
      metricas_ponderadas_def filas_asignar_columna columnas_asignar_columna
      volumen_ponderado_asignado)

lemma rotacion_sin_oi: "openInterest c = 0 \<Longrightarrow> rotacion c = 0"
  by (simp add: rotacion_def)

section \<open>Put/call ratio of volume\<close>

text \<open>
  C4. For a snapshot with at least one contract, \<open>analyze\<close> returns normally and stores
  under \<^verbatim>\<open>vol_put_call_ratio\<close> the number 0 when the calls have no volume, and the put
  volume divided by the call volume otherwise. In either case the value is a number,
  and no division fault arises.
\<close>

theorem vol_put_call_ratio_definido:
  assumes "filas df \<noteq> []"
  shows "metrica (VolumeAnalyzer_analyze (Some df)) ''vol_put_call_ratio'' =
     Some (if suma_volume (de_tipo ''CALL'' (filas df)) = 0 then 0
           else real (suma_volume (de_tipo ''PUT'' (filas df)))
                / real (suma_volume (de_tipo ''CALL'' (filas df))))"
  using ratio_de_analyze[OF assms] by simp

text \<open>The scenario of the specification (ratio 2), and a book of puts only (ratio 0).\<close>

theorem vol_put_call_ratio_definido_witness:
  "filas cadena_defensiva \<noteq> []
   \<and> metrica (VolumeAnalyzer_analyze (Some cadena_defensiva)) ''vol_put_call_ratio'' = Some 2
   \<and> filas cadena_solo_puts \<noteq> []
   \<and> metrica (VolumeAnalyzer_analyze (Some cadena_solo_puts)) ''vol_put_call_ratio'' = Some 0"
proof -
  have d: "filas cadena_defensiva \<noteq> []" by (simp add: cadena_defensiva_def)
  have p: "filas cadena_solo_puts \<noteq> []" by (simp add: cadena_solo_puts_def)
  have c: "suma_volume (de_tipo ''CALL'' (filas cadena_defensiva)) = 1000"
    by (simp add: cadena_defensiva_def contrato_def suma_volume_def de_tipo_def sum_list_replicate)
  have q: "suma_volume (de_tipo ''PUT'' (filas cadena_defensiva)) = 2000"
    by (simp add: cadena_defensiva_def contrato_def suma_volume_def de_tipo_def sum_list_replicate)
  have z: "suma_volume (de_tipo ''CALL'' (filas cadena_solo_puts)) = 0"
    by (simp add: cadena_solo_puts_def contrato_def suma_volume_def de_tipo_def)
  from vol_put_call_ratio_definido[OF d] c q
  have "metrica (VolumeAnalyzer_analyze (Some cadena_defensiva)) ''vol_put_call_ratio'' = Some 2"
    by simp
  moreover from vol_put_call_ratio_definido[OF p] z
  have "metrica (VolumeAnalyzer_analyze (Some cadena_solo_puts)) ''vol_put_call_ratio'' = Some 0"
    by simp
  ultimately show ?thesis using d p by simp
qed

section \<open>Mean rotation\<close>

text \<open>
  C5. For a snapshot with at least one contract, \<^verbatim>\<open>rotacion_promedio\<close> is the arithmetic
  mean over all contracts of the per-contract rotation (volume over open interest where
  the open interest is positive, 0 elsewhere), and \<^verbatim>\<open>alta_rotacion_count\<close> counts the
  contracts whose rotation exceeds 1. When every contract has open interest 0, both
  are 0.
\<close>

theorem rotacion_promedio_es_media:
  assumes "filas df \<noteq> []"
  shows "metrica (VolumeAnalyzer_analyze (Some df)) ''rotacion_promedio'' =
           Some (sum_list (map rotacion (filas df)) / real (length (filas df)))
       \<and> metrica (VolumeAnalyzer_analyze (Some df)) ''alta_rotacion_count'' =
           Some (real (length (filter (\<lambda>c. rotacion c > 1) (filas df))))
       \<and> ((\<forall>c \<in> set (filas df). openInterest c = 0) \<longrightarrow>
            metrica (VolumeAnalyzer_analyze (Some df)) ''rotacion_promedio'' = Some 0
          \<and> metrica (VolumeAnalyzer_analyze (Some df)) ''alta_rotacion_count'' = Some 0)"
proof (intro conjI impI)
  show "metrica (VolumeAnalyzer_analyze (Some df)) ''rotacion_promedio'' =
           Some (sum_list (map rotacion (filas df)) / real (length (filas df)))"
    by (rule rotacion_de_analyze[OF assms])
  show "metrica (VolumeAnalyzer_analyze (Some df)) ''alta_rotacion_count'' =
           Some (real (length (filter (\<lambda>c. rotacion c > 1) (filas df))))"
    by (rule alta_rotacion_de_analyze[OF assms])
next
  assume z: "\<forall>c \<in> set (filas df). openInterest c = 0"
  then have m: "map rotacion (filas df) = map (\<lambda>c. 0) (filas df)"
    by (intro map_cong) (simp_all add: rotacion_sin_oi)
  have f: "filter (\<lambda>c. rotacion c > 1) (filas df) = []"
    using z by (simp add: filter_empty_conv rotacion_sin_oi)
  show "metrica (VolumeAnalyzer_analyze (Some df)) ''rotacion_promedio'' = Some 0"
    unfolding rotacion_de_analyze[OF assms] m by simp
  show "metrica (VolumeAnalyzer_analyze (Some df)) ''alta_rotacion_count'' = Some 0"
    unfolding alta_rotacion_de_analyze[OF assms] f by simp
qed

text \<open>
  Rotations 1/100 and 10 average to 1001/200, while total volume over total open
  interest is 110/1010; and a snapshot without open interest gives 0 and 0.
\<close>

theorem rotacion_promedio_es_media_witness:
  "filas cadena_rotacion \<noteq> []
   \<and> metrica (VolumeAnalyzer_analyze (Some cadena_rotacion)) ''rotacion_promedio''
       = Some (1001 / 200)
   \<and> real (suma_volume (filas cadena_rotacion)) / real (suma_oi (filas cadena_rotacion))
       = 11 / 101
   \<and> filas cadena_sin_oi \<noteq> []
   \<and> list_all (\<lambda>c. openInterest c = 0) (filas cadena_sin_oi)
   \<and> metrica (VolumeAnalyzer_analyze (Some cadena_sin_oi)) ''rotacion_promedio'' = Some 0
   \<and> metrica (VolumeAnalyzer_analyze (Some cadena_sin_oi)) ''alta_rotacion_count'' = Some 0"
proof -
  have r: "filas cadena_rotacion \<noteq> []" by (simp add: cadena_rotacion_def)
  have s: "filas cadena_sin_oi \<noteq> []" by (simp add: cadena_sin_oi_def)
  have z: "\<forall>c \<in> set (filas cadena_sin_oi). openInterest c = 0"
    by (simp add: cadena_sin_oi_def contrato_def)
  have v: "sum_list (map rotacion (filas cadena_rotacion)) / real (length (filas cadena_rotacion))
             = 1001 / 200"
    by (simp add: cadena_rotacion_def contrato_def rotacion_def)
  have a: "real (suma_volume (filas cadena_rotacion)) / real (suma_oi (filas cadena_rotacion))
             = 11 / 101"
    by (simp add: cadena_rotacion_def contrato_def suma_volume_def suma_oi_def)
  from rotacion_promedio_es_media[OF r] v
  have "metrica (VolumeAnalyzer_analyze (Some cadena_rotacion)) ''rotacion_promedio''
          = Some (1001 / 200)"
    by simp
  moreover from rotacion_promedio_es_media[OF s] z
  have "metrica (VolumeAnalyzer_analyze (Some cadena_sin_oi)) ''rotacion_promedio'' = Some 0
      \<and> metrica (VolumeAnalyzer_analyze (Some cadena_sin_oi)) ''alta_rotacion_count'' = Some 0"
    by blast
  ultimately show ?thesis using r s z a by (simp add: list_all_iff)
qed

section \<open>Distance-weighted put/call ratio\<close>

text \<open>
  C9. For a snapshot with at least one contract and a \<^verbatim>\<open>moneyness\<close> column,
  \<^verbatim>\<open>vol_put_call_ponderado\<close> is the sum over the puts of volume times weight divided by
  the same sum over the calls, where the weight of a contract is
  1 / (|moneyness - 1| + 0.01); it is 0 when the weighted call volume is 0. The
  denominator of the weight is never zero: the weight lies in (0, 100].
\<close>

theorem vol_put_call_ponderado_correcto:
  assumes "filas df \<noteq> []" and "''moneyness'' \<in> set (columnas df)"
  shows "metrica (VolumeAnalyzer_analyze (Some df)) ''vol_put_call_ponderado'' =
           Some (if sum_list (map (\<lambda>c. real (volume c) * peso c) (de_tipo ''CALL'' (filas df))) = 0
                 then 0
                 else sum_list (map (\<lambda>c. real (volume c) * peso c) (de_tipo ''PUT'' (filas df)))
                      / sum_list (map (\<lambda>c. real (volume c) * peso c) (de_tipo ''CALL'' (filas df))))
       \<and> (\<forall>c. peso c = 1 / (\<bar>moneyness c - 1\<bar> + 1 / 100)
               \<and> \<bar>moneyness c - 1\<bar> + 1 / 100 \<noteq> 0 \<and> 0 < peso c \<and> peso c \<le> 100)"
proof (intro conjI allI)
  have nn: "0 \<le> sum_list (map (\<lambda>c. real (volume c) * peso c) (de_tipo ''CALL'' (filas df)))"
    by (rule suma_ponderada_no_negativa)
  show "metrica (VolumeAnalyzer_analyze (Some df)) ''vol_put_call_ponderado'' =
           Some (if sum_list (map (\<lambda>c. real (volume c) * peso c) (de_tipo ''CALL'' (filas df))) = 0
                 then 0
                 else sum_list (map (\<lambda>c. real (volume c) * peso c) (de_tipo ''PUT'' (filas df)))
                      / sum_list (map (\<lambda>c. real (volume c) * peso c) (de_tipo ''CALL'' (filas df))))"
    unfolding ponderado_de_analyze[OF assms] using nn by simp
next
  fix c
  show "peso c = 1 / (\<bar>moneyness c - 1\<bar> + 1 / 100)" by (simp add: peso_def)
  have "0 < \<bar>moneyness c - 1\<bar> + 1 / 100" by (simp add: add_nonneg_pos)
  then show "\<bar>moneyness c - 1\<bar> + 1 / 100 \<noteq> 0" by simp
  show "0 < peso c" by (rule peso_positivo)
  show "peso c \<le> 100" by (rule peso_acotado)
qed

text \<open>Weighted puts 11 * 100/11 = 100 against weighted calls 10 * 100 = 1000.\<close>

theorem vol_put_call_ponderado_correcto_witness:
  "filas cadena_ponderada \<noteq> [] \<and> ''moneyness'' \<in> set (columnas cadena_ponderada)
   \<and> metrica (VolumeAnalyzer_analyze (Some cadena_ponderada)) ''vol_put_call_ponderado''
       = Some (1 / 10)"
proof -
  have n: "filas cadena_ponderada \<noteq> []" by (simp add: cadena_ponderada_def)
  have m: "''moneyness'' \<in> set (columnas cadena_ponderada)"
    by (simp add: cadena_ponderada_def columnas_snapshot_def)
  have p: "sum_list (map (\<lambda>c. real (volume c) * peso c) (de_tipo ''PUT'' (filas cadena_ponderada)))
             = 100"
    by (simp add: cadena_ponderada_def contrato_def de_tipo_def peso_def)
  have c: "sum_list (map (\<lambda>c. real (volume c) * peso c) (de_tipo ''CALL'' (filas cadena_ponderada)))
             = 1000"
    by (simp add: cadena_ponderada_def contrato_def de_tipo_def peso_def)
  from vol_put_call_ponderado_correcto[OF n m]
  have "metrica (VolumeAnalyzer_analyze (Some cadena_ponderada)) ''vol_put_call_ponderado''
          = Some (1 / 10)"
    unfolding p c by simp
  then show ?thesis using n m by simp
qed

section \<open>Absent and empty snapshots\<close>

text \<open>
  C8. When the snapshot is absent (\<open>None\<close>) or has no contract, both
  \<open>VolumeAnalyzer.analyze\<close> and \<open>OpenInterestAnalyzer.analyze\<close> return the empty dict;
  neither raises, and the volume analyzer leaves the argument as it was.
\<close>

theorem analyze_sin_datos:
  assumes "od = None \<or> (\<exists>df. od = Some df \<and> filas df = [])"
  shows "VolumeAnalyzer_analyze od = Inr ([], od) \<and> OpenInterestAnalyzer_analyze od = Inr []"
  using assms
  by (auto simp: VolumeAnalyzer_analyze_def OpenInterestAnalyzer_analyze_def validar_requerido)

theorem analyze_sin_datos_witness:
  "VolumeAnalyzer_analyze None = Inr ([], None)
   \<and> OpenInterestAnalyzer_analyze None = Inr []
   \<and> filas cadena_vacia = []
   \<and> VolumeAnalyzer_analyze (Some cadena_vacia) = Inr ([], Some cadena_vacia)
   \<and> OpenInterestAnalyzer_analyze (Some cadena_vacia) = Inr []"
proof -
  have v: "filas cadena_vacia = []" by (simp add: cadena_vacia_def)
  have a: "(None :: dataframe option) = None \<or> (\<exists>df. None = Some df \<and> filas df = [])"
    by simp
  have b: "Some cadena_vacia = None \<or> (\<exists>df. Some cadena_vacia = Some df \<and> filas df = [])"
    using v by simp
  from analyze_sin_datos[OF a] analyze_sin_datos[OF b] v show ?thesis by simp
qed

section \<open>Alerts on an empty result\<close>

text \<open>
  C10. On the empty result each analyzer's \<open>get_alerts\<close> returns the empty list: for the
  volume and open-interest analyzers the empty dict that \<open>analyze\<close> returns for absent
  data, for the events analyzer an absent or empty result. No rule fires and nothing
  is raised.
\<close>

theorem get_alerts_sin_datos:
  "VolumeAnalyzer_get_alerts [] = []
   \<and> OpenInterestAnalyzer_get_alerts [] = []
   \<and> EventsAnalyzer_get_alerts simb None = []
   \<and> EventsAnalyzer_get_alerts simb (Some dict_vacio) = []"
  by (simp add: VolumeAnalyzer_get_alerts_def OpenInterestAnalyzer_get_alerts_def
      EventsAnalyzer_get_alerts_def dict_get_def falsy_def
      UMBRAL_PCR_DEFENSIVO_def UMBRAL_ROTACION_def)

section \<open>Effect of the volume analysis on the snapshot\<close>

lemma marco_analyze:
  assumes "filas df \<noteq> []"
  shows "marco (VolumeAnalyzer_analyze (Some df)) =
    Some (let df1 = asignar_columna ''vol_oi_individual''
                      (\<lambda>c. c\<lparr>vol_oi_individual := rotacion c\<rparr>) df
          in if ''moneyness'' \<in> set (columnas df)
             then asignar_columna ''peso_distancia'' (\<lambda>c. c\<lparr>peso_distancia := peso c\<rparr>) df1
             else df1)"
  using assms
  by (simp add: VolumeAnalyzer_analyze_def validar_requerido marco_def Let_def
      asignar_columna_def)

lemma marco_analyze_sin_datos:
  "od = None \<or> (\<exists>df. od = Some df \<and> filas df = []) \<Longrightarrow>
     marco (VolumeAnalyzer_analyze od) = od"
  by (auto simp: VolumeAnalyzer_analyze_def validar_requerido marco_def)

text \<open>
  C3, as amended. \<open>VolumeAnalyzer.analyze\<close> adds and removes no row and changes no cell
  of the columns it was given, other than \<^verbatim>\<open>vol_oi_individual\<close> and \<^verbatim>\<open>peso_distancia\<close>.
  On a snapshot with at least one contract it writes into the caller's table the column
  \<^verbatim>\<open>vol_oi_individual\<close> (the per-contract rotation) and, when there is a \<^verbatim>\<open>moneyness\<close>
  column, the column \<^verbatim>\<open>peso_distancia\<close> (the distance weight): the label is appended
  after the existing ones if it is new, and the column is overwritten if it exists. An
  absent or empty snapshot is left as it was.
\<close>

theorem analyze_efecto_en_snapshot:
  "(od = None \<or> (\<exists>df. od = Some df \<and> filas df = []) \<longrightarrow>
      marco (VolumeAnalyzer_analyze od) = od)
   \<and> (filas df \<noteq> [] \<longrightarrow>
       (\<exists>df'. marco (VolumeAnalyzer_analyze (Some df)) = Some df'
          \<and> length (filas df') = length (filas df)
          \<and> map sin_derivadas (filas df') = map sin_derivadas (filas df)
          \<and> map vol_oi_individual (filas df') = map rotacion (filas df)
          \<and> (if ''moneyness'' \<in> set (columnas df)
               then map peso_distancia (filas df') = map peso (filas df)
               else map peso_distancia (filas df') = map peso_distancia (filas df))
          \<and> take (length (columnas df)) (columnas df') = columnas df
          \<and> set (columnas df') = set (columnas df) \<union>
              (if ''moneyness'' \<in> set (columnas df)
               then {''vol_oi_individual'', ''peso_distancia''}
               else {''vol_oi_individual''})))"
proof (intro conjI impI)
  assume "od = None \<or> (\<exists>df. od = Some df \<and> filas df = [])"
  then show "marco (VolumeAnalyzer_analyze od) = od" by (rule marco_analyze_sin_datos)
next
  assume ne: "filas df \<noteq> []"
  show "\<exists>df'. marco (VolumeAnalyzer_analyze (Some df)) = Some df'
          \<and> length (filas df') = length (filas df)
          \<and> map sin_derivadas (filas df') = map sin_derivadas (filas df)
          \<and> map vol_oi_individual (filas df') = map rotacion (filas df)
          \<and> (if ''moneyness'' \<in> set (columnas df)
               then map peso_distancia (filas df') = map peso (filas df)
               else map peso_distancia (filas df') = map peso_distancia (filas df))
          \<and> take (length (columnas df)) (columnas df') = columnas df
          \<and> set (columnas df') = set (columnas df) \<union>
              (if ''moneyness'' \<in> set (columnas df)
               then {''vol_oi_individual'', ''peso_distancia''}
               else {''vol_oi_individual''})"
    unfolding marco_analyze[OF ne]
    by (auto simp: Let_def asignar_columna_def sin_derivadas_def peso_def rotacion_def o_def)
qed

theorem analyze_efecto_en_snapshot_witness:
  "marco (VolumeAnalyzer_analyze None) = None
   \<and> filas cadena_pcr_13 \<noteq> []
   \<and> (\<exists>df'. marco (VolumeAnalyzer_analyze (Some cadena_pcr_13)) = Some df'
         \<and> length (filas df') = 2
         \<and> map sin_derivadas (filas df') = map sin_derivadas (filas cadena_pcr_13)
         \<and> map vol_oi_individual (filas df') = [1 / 4, 13 / 40]
         \<and> set (columnas df') =
             {''expiration'', ''moneyness'', ''itm_otm'', ''vol_oi_individual'', ''peso_distancia''})"
proof -
  have n: "filas cadena_pcr_13 \<noteq> []" by (simp add: cadena_pcr_13_def)
  have l: "length (filas cadena_pcr_13) = 2" by (simp add: cadena_pcr_13_def)
  have r: "map rotacion (filas cadena_pcr_13) = [1 / 4, 13 / 40]"
    by (simp add: cadena_pcr_13_def contrato_def rotacion_def)
  have c: "set (columnas cadena_pcr_13) = {''expiration'', ''moneyness'', ''itm_otm''}"
    by (simp add: cadena_pcr_13_def columnas_snapshot_def)
  have m: "''moneyness'' \<in> set (columnas cadena_pcr_13)"
    by (simp add: cadena_pcr_13_def columnas_snapshot_def)
  have a: "marco (VolumeAnalyzer_analyze None) = None"
    using analyze_efecto_en_snapshot[of None cadena_pcr_13] by simp
  from analyze_efecto_en_snapshot[of None cadena_pcr_13] n
  obtain df' where d: "marco (VolumeAnalyzer_analyze (Some cadena_pcr_13)) = Some df'"
      "length (filas df') = length (filas cadena_pcr_13)"
      "map sin_derivadas (filas df') = map sin_derivadas (filas cadena_pcr_13)"
      "map vol_oi_individual (filas df') = map rotacion (filas cadena_pcr_13)"
      "set (columnas df') = set (columnas cadena_pcr_13) \<union>
              (if ''moneyness'' \<in> set (columnas cadena_pcr_13)
               then {''vol_oi_individual'', ''peso_distancia''}
               else {''vol_oi_individual''})"
    by blast
  have "set (columnas df') =
      {''expiration'', ''moneyness'', ''itm_otm'', ''vol_oi_individual'', ''peso_distancia''}"
    unfolding d(5) c using m by (simp add: insert_commute)
  with d(1-4) l r a n show ?thesis by auto
qed

text \<open>
  C3 as stated fails: after the call on a two-contract snapshot the caller's table has
  two columns more than before.
\<close>

theorem analyze_cambia_snapshot:
  "columnas cadena_pcr_13 = [''expiration'', ''moneyness'', ''itm_otm'']
   \<and> map_option columnas (marco (VolumeAnalyzer_analyze (Some cadena_pcr_13))) =
       Some [''expiration'', ''moneyness'', ''itm_otm'', ''vol_oi_individual'', ''peso_distancia'']
   \<and> marco (VolumeAnalyzer_analyze (Some cadena_pcr_13)) \<noteq> Some cadena_pcr_13"
proof -
  have n: "filas cadena_pcr_13 \<noteq> []" by (simp add: cadena_pcr_13_def)
  have c: "columnas cadena_pcr_13 = [''expiration'', ''moneyness'', ''itm_otm'']"
    by (simp add: cadena_pcr_13_def columnas_snapshot_def)
  have k: "map_option columnas (marco (VolumeAnalyzer_analyze (Some cadena_pcr_13))) =
       Some [''expiration'', ''moneyness'', ''itm_otm'', ''vol_oi_individual'', ''peso_distancia'']"
    unfolding marco_analyze[OF n] by (simp add: Let_def columnas_asignar_columna c)
  have "marco (VolumeAnalyzer_analyze (Some cadena_pcr_13)) \<noteq> Some cadena_pcr_13"
  proof
    assume "marco (VolumeAnalyzer_analyze (Some cadena_pcr_13)) = Some cadena_pcr_13"
    with k have "Some (columnas cadena_pcr_13) =
       Some [''expiration'', ''moneyness'', ''itm_otm'', ''vol_oi_individual'', ''peso_distancia'']"
      by simp
    then show False by (simp add: c)
  qed
  with c k show ?thesis by simp
qed

section \<open>Pre-event alerts\<close>












section \<open>Ordering of the consolidated alerts\<close>

lemma clave_ALTA: "prioridad x = Some ''ALTA'' \<Longrightarrow> clave_prioridad x = 1"
  by (simp add: clave_prioridad_def dict_get_def orden_prioridad_def)

lemma clave_MEDIA: "prioridad x = Some ''MEDIA'' \<Longrightarrow> clave_prioridad x = 2"
  by (simp add: clave_prioridad_def dict_get_def orden_prioridad_def)

lemma clave_BAJA: "prioridad x = Some ''BAJA'' \<Longrightarrow> clave_prioridad x = 3"
  by (simp add: clave_prioridad_def dict_get_def orden_prioridad_def)

lemma sorted_ordenar: "sorted (map clave_prioridad (ordenar_alertas_por_prioridad xs))"
  by (simp add: ordenar_alertas_por_prioridad_def)

lemma mset_ordenar: "mset (ordenar_alertas_por_prioridad xs) = mset xs"
  by (simp add: ordenar_alertas_por_prioridad_def)

lemma length_ordenar: "length (ordenar_alertas_por_prioridad xs) = length xs"
  by (simp add: ordenar_alertas_por_prioridad_def)

text \<open>Stability: the alerts of any one priority keep their order.\<close>

lemma estable_ordenar:
  "filter (\<lambda>a. prioridad a = p) (ordenar_alertas_por_prioridad xs) =
   filter (\<lambda>a. prioridad a = p) xs"
proof -
  define k where "k = dict_get orden_prioridad (case p of None \<Rightarrow> ''BAJA'' | Some q \<Rightarrow> q) 999"
  have imp: "\<And>a. prioridad a = p \<Longrightarrow> clave_prioridad a = k"
    by (simp add: clave_prioridad_def k_def)
  have eq: "\<And>ys. filter (\<lambda>a. prioridad a = p) ys =
        filter (\<lambda>a. prioridad a = p) (filter (\<lambda>a. clave_prioridad a = k) ys)"
    using imp by (auto intro: filter_cong)
  have "filter (\<lambda>a. prioridad a = p) (sort_key clave_prioridad xs) =
        filter (\<lambda>a. prioridad a = p)
          (filter (\<lambda>a. clave_prioridad a = k) (sort_key clave_prioridad xs))"
    by (rule eq)
  also have "\<dots> = filter (\<lambda>a. prioridad a = p) (filter (\<lambda>a. clave_prioridad a = k) xs)"
    by (simp only: sort_key_stable)
  also have "\<dots> = filter (\<lambda>a. prioridad a = p) xs"
    by (rule eq[symmetric])
  finally show ?thesis by (simp add: ordenar_alertas_por_prioridad_def)
qed

lemma orden_claves:
  assumes "i < j" "j < length xs"
  shows "clave_prioridad (ordenar_alertas_por_prioridad xs ! i)
           \<le> clave_prioridad (ordenar_alertas_por_prioridad xs ! j)"
proof -
  let ?ys = "ordenar_alertas_por_prioridad xs"
  have "map clave_prioridad ?ys ! i \<le> map clave_prioridad ?ys ! j"
    using assms by (intro sorted_nth_mono[OF sorted_ordenar]) (simp_all add: length_ordenar)
  then show ?thesis using assms by (simp add: length_ordenar)
qed

text \<open>A list that is a stable sorting of the input by priority rank is the one computed.\<close>

lemma ordenar_unico:
  assumes "mset ys = mset xs" and "sorted (map clave_prioridad ys)"
      and "\<And>k. filter (\<lambda>a. clave_prioridad a = k) ys = filter (\<lambda>a. clave_prioridad a = k) xs"
  shows "ordenar_alertas_por_prioridad xs = ys"
  unfolding ordenar_alertas_por_prioridad_def
proof (rule properties_for_sort_key)
  show "mset ys = mset xs" by (rule assms(1))
  show "sorted (map clave_prioridad ys)" by (rule assms(2))
  fix k assume "k \<in> set ys"
  have sw: "filter (\<lambda>x. clave_prioridad k = clave_prioridad x) zs
          = filter (\<lambda>a. clave_prioridad a = clave_prioridad k) zs" for zs :: "'a alerta_scheme list"
    by (rule filter_cong) auto
  show "filter (\<lambda>x. clave_prioridad k = clave_prioridad x) ys
           = filter (\<lambda>x. clave_prioridad k = clave_prioridad x) xs"
    unfolding sw by (rule assms(3))
qed

text \<open>
  C6. \<open>ordenar_alertas_por_prioridad\<close> returns the alerts it was given, each as often as
  given, in non-decreasing priority rank (\<^verbatim>\<open>ALTA\<close> 1, \<^verbatim>\<open>MEDIA\<close> 2, \<^verbatim>\<open>BAJA\<close> or no priority 3,
  anything else 999): no \<^verbatim>\<open>MEDIA\<close> alert stands before an \<^verbatim>\<open>ALTA\<close> alert and no \<^verbatim>\<open>BAJA\<close>
  alert before a \<^verbatim>\<open>MEDIA\<close> or \<^verbatim>\<open>ALTA\<close> one, and the alerts of any one priority stand in
  the order they had in the input. \<open>consolidar_alertas\<close> returns the alerts of all
  symbols and analyzers, in iteration order, sorted in this way.
\<close>

theorem alertas_ordenadas_estable:
  fixes alertas :: "'a alerta_scheme list"
  shows "mset (ordenar_alertas_por_prioridad alertas) = mset alertas
   \<and> sorted (map clave_prioridad (ordenar_alertas_por_prioridad alertas))
   \<and> (\<forall>i j. i < j \<and> j < length alertas \<longrightarrow>
        \<not> (prioridad (ordenar_alertas_por_prioridad alertas ! i) = Some ''MEDIA''
           \<and> prioridad (ordenar_alertas_por_prioridad alertas ! j) = Some ''ALTA'')
      \<and> \<not> (prioridad (ordenar_alertas_por_prioridad alertas ! i) = Some ''BAJA''
           \<and> prioridad (ordenar_alertas_por_prioridad alertas ! j) = Some ''MEDIA'')
      \<and> \<not> (prioridad (ordenar_alertas_por_prioridad alertas ! i) = Some ''BAJA''
           \<and> prioridad (ordenar_alertas_por_prioridad alertas ! j) = Some ''ALTA''))
   \<and> (\<forall>p. filter (\<lambda>a. prioridad a = p) (ordenar_alertas_por_prioridad alertas)
          = filter (\<lambda>a. prioridad a = p) alertas)
   \<and> mset (consolidar_alertas rs) = mset (alertas_consolidadas rs)
   \<and> sorted (map clave_prioridad (consolidar_alertas rs))
   \<and> (\<forall>p. filter (\<lambda>a. prioridad a = p) (consolidar_alertas rs)
          = filter (\<lambda>a. prioridad a = p) (alertas_consolidadas rs))"
proof (intro conjI allI impI)
  show "mset (ordenar_alertas_por_prioridad alertas) = mset alertas"
    by (rule mset_ordenar)
  show "sorted (map clave_prioridad (ordenar_alertas_por_prioridad alertas))"
    by (rule sorted_ordenar)
  show "filter (\<lambda>a. prioridad a = p) (ordenar_alertas_por_prioridad alertas)
          = filter (\<lambda>a. prioridad a = p) alertas" for p
    by (rule estable_ordenar)
  show "mset (consolidar_alertas rs) = mset (alertas_consolidadas rs)"
    by (simp add: consolidar_alertas_def mset_ordenar)
  show "sorted (map clave_prioridad (consolidar_alertas rs))"
    by (simp add: consolidar_alertas_def sorted_ordenar)
  show "filter (\<lambda>a. prioridad a = p) (consolidar_alertas rs)
          = filter (\<lambda>a. prioridad a = p) (alertas_consolidadas rs)" for p
    by (simp add: consolidar_alertas_def estable_ordenar)
next
  fix i j
  assume ij: "i < j \<and> j < length alertas"
  let ?ys = "ordenar_alertas_por_prioridad alertas"
  have le: "clave_prioridad (?ys ! i) \<le> clave_prioridad (?ys ! j)"
    using ij by (intro orden_claves) simp_all
  show "\<not> (prioridad (?ys ! i) = Some ''MEDIA'' \<and> prioridad (?ys ! j) = Some ''ALTA'')"
    using le by (auto simp: clave_ALTA clave_MEDIA)
  show "\<not> (prioridad (?ys ! i) = Some ''BAJA'' \<and> prioridad (?ys ! j) = Some ''MEDIA'')"
    using le by (auto simp: clave_BAJA clave_MEDIA)
  show "\<not> (prioridad (?ys ! i) = Some ''BAJA'' \<and> prioridad (?ys ! j) = Some ''ALTA'')"
    using le by (auto simp: clave_ALTA clave_BAJA)
qed

text \<open>Five alerts: the two \<^verbatim>\<open>ALTA\<close> ones come first, then the two \<^verbatim>\<open>MEDIA\<close> ones, then
  the one without priority, each pair in its input order.\<close>

theorem alertas_ordenadas_estable_witness:
  "(0::nat) < 1 \<and> 1 < length alertas_ej
   \<and> \<not> (prioridad (ordenar_alertas_por_prioridad alertas_ej ! 0) = Some ''MEDIA''
        \<and> prioridad (ordenar_alertas_por_prioridad alertas_ej ! 1) = Some ''ALTA'')
   \<and> map tipo_alerta (filter (\<lambda>a. prioridad a = Some ''ALTA'')
        (ordenar_alertas_por_prioridad alertas_ej)) = [''VOLUMEN_PUTS_EXTREMO'', ''OI_PUTS_EXTREMO'']
   \<and> map tipo_alerta (filter (\<lambda>a. prioridad a = Some ''MEDIA'')
        (ordenar_alertas_por_prioridad alertas_ej)) = [''ALTA_ROTACION'', ''OI_CONCENTRADO'']
   \<and> map tipo_alerta (ordenar_alertas_por_prioridad alertas_ej) =
       [''VOLUMEN_PUTS_EXTREMO'', ''OI_PUTS_EXTREMO'', ''ALTA_ROTACION'', ''OI_CONCENTRADO'',
        ''SIN_PRIORIDAD'']
   \<and> map (\<lambda>a. (simbolo_alerta a, tipo_alerta a))
        (filter (\<lambda>a. prioridad a = Some ''ALTA'') (consolidar_alertas resultados_ej)) =
       [(''SPY'', ''OI_PUTS_EXTREMO''), (''QQQ'', ''VOLUMEN_PUTS_EXTREMO'')]"
proof -
  note T = alertas_ordenadas_estable[of alertas_ej resultados_ej]
  have l: "(0::nat) < 1 \<and> 1 < length alertas_ej" by (simp add: alertas_ej_def)
  from T l have 1:
    "\<not> (prioridad (ordenar_alertas_por_prioridad alertas_ej ! 0) = Some ''MEDIA''
        \<and> prioridad (ordenar_alertas_por_prioridad alertas_ej ! 1) = Some ''ALTA'')"
    by blast
  from T have 2: "filter (\<lambda>a. prioridad a = Some ''ALTA'') (ordenar_alertas_por_prioridad alertas_ej)
      = filter (\<lambda>a. prioridad a = Some ''ALTA'') alertas_ej"
    by blast
  from T have 3: "filter (\<lambda>a. prioridad a = Some ''MEDIA'') (ordenar_alertas_por_prioridad alertas_ej)
      = filter (\<lambda>a. prioridad a = Some ''MEDIA'') alertas_ej"
    by blast
  from T have 4: "filter (\<lambda>a. prioridad a = Some ''ALTA'') (consolidar_alertas resultados_ej)
      = filter (\<lambda>a. prioridad a = Some ''ALTA'') (alertas_consolidadas resultados_ej)"
    by blast
  have 5: "map tipo_alerta (ordenar_alertas_por_prioridad alertas_ej) =
       [''VOLUMEN_PUTS_EXTREMO'', ''OI_PUTS_EXTREMO'', ''ALTA_ROTACION'', ''OI_CONCENTRADO'',
        ''SIN_PRIORIDAD'']"
    by (simp add: ordenar_alertas_por_prioridad_def alertas_ej_def alerta_ej_def
        clave_prioridad_def dict_get_def orden_prioridad_def)
  have 6: "map tipo_alerta (filter (\<lambda>a. prioridad a = Some ''ALTA'') alertas_ej)
      = [''VOLUMEN_PUTS_EXTREMO'', ''OI_PUTS_EXTREMO'']"
    by (simp add: alertas_ej_def alerta_ej_def)
  have 7: "map tipo_alerta (filter (\<lambda>a. prioridad a = Some ''MEDIA'') alertas_ej)
      = [''ALTA_ROTACION'', ''OI_CONCENTRADO'']"
    by (simp add: alertas_ej_def alerta_ej_def)
  have 8: "map (\<lambda>a. (simbolo_alerta a, tipo_alerta a))
        (filter (\<lambda>a. prioridad a = Some ''ALTA'') (alertas_consolidadas resultados_ej)) =
       [(''SPY'', ''OI_PUTS_EXTREMO''), (''QQQ'', ''VOLUMEN_PUTS_EXTREMO'')]"
    by (simp add: alertas_consolidadas_def resultados_ej_def alerta_ej_def completar_def)
  show ?thesis
    unfolding 2 3 4 using l 1 5 6 7 8 by simp
qed

section \<open>The look-ahead window of the event query\<close>

lemma set_detectar:
  "set (detectar_eventos_proximos cal ahora n) =
   {\<lparr>tipo_evento = t, fecha = d, dias_restantes = Some (days (d - ahora))\<rparr> | t d fs.
      (t, fs) \<in> set cal \<and> d \<in> set fs \<and> ahora \<le> d \<and> d \<le> ahora + timedelta_days n}"
  by (auto simp: detectar_eventos_proximos_def Let_def)

lemma set_detectar_analyzer:
  "set (EventsAnalyzer_detectar_eventos_proximos cal ahora s n) =
   {\<lparr>tipo_evento = t, fecha = d, dias_restantes = Some (days (d - ahora)),
     simbolo = s, sector = get_simbolo_sector s\<rparr> | t d fs.
      (t, fs) \<in> set cal \<and> d \<in> set fs \<and> ahora \<le> d \<and> d \<le> ahora + timedelta_days n}"
  by (auto simp: EventsAnalyzer_detectar_eventos_proximos_def Let_def)

text \<open>
  C7. Queried at time \<open>ahora\<close> with a look-ahead of \<open>n\<close> days, both event queries (the
  helper and the analyzer's method) return an event of category \<open>t\<close> dated \<open>d\<close> exactly
  when the calendar lists \<open>d\<close> under \<open>t\<close> and \<open>ahora \<le> d \<le> ahora + n\<close> days, both bounds
  included. With \<open>n = 0\<close> an entry equal to \<open>ahora\<close> is returned, and an entry one day
  past the end of the window never is.
\<close>

theorem ventana_de_eventos_inclusiva:
  "((\<exists>e \<in> set (detectar_eventos_proximos cal ahora n). tipo_evento e = t \<and> fecha e = d)
      \<longleftrightarrow> (\<exists>fs. (t, fs) \<in> set cal \<and> d \<in> set fs) \<and> ahora \<le> d \<and> d \<le> ahora + n * un_dia)
   \<and> ((\<exists>e \<in> set (EventsAnalyzer_detectar_eventos_proximos cal ahora s n).
          tipo_evento e = t \<and> fecha e = d)
      \<longleftrightarrow> (\<exists>fs. (t, fs) \<in> set cal \<and> d \<in> set fs) \<and> ahora \<le> d \<and> d \<le> ahora + n * un_dia)"
  unfolding set_detectar set_detectar_analyzer timedelta_days_def by (auto; force)

theorem ventana_de_eventos_inclusiva_witness:
  "(\<exists>e \<in> set (detectar_eventos_proximos calendario_borde ahora_borde 0).
       tipo_evento e = ''quad_witching'' \<and> fecha e = ahora_borde)
   \<and> \<not> (\<exists>e \<in> set (detectar_eventos_proximos calendario_borde ahora_borde 0).
       tipo_evento e = ''quad_witching'' \<and> fecha e = ahora_borde + un_dia)
   \<and> (\<exists>e \<in> set (EventsAnalyzer_detectar_eventos_proximos calendario_borde ahora_borde ''SPY'' 0).
       tipo_evento e = ''quad_witching'' \<and> fecha e = ahora_borde)
   \<and> \<not> (\<exists>e \<in> set (EventsAnalyzer_detectar_eventos_proximos calendario_borde ahora_borde ''SPY'' 0).
       tipo_evento e = ''quad_witching'' \<and> fecha e = ahora_borde + un_dia)"
proof -
  have c1: "\<exists>fs. (''quad_witching'', fs) \<in> set calendario_borde \<and> ahora_borde \<in> set fs"
    by (simp add: calendario_borde_def ahora_borde_def)
  have u: "\<not> ahora_borde + un_dia \<le> ahora_borde + 0 * un_dia"
    by (simp add: un_dia_def)
  have i: "ahora_borde \<le> ahora_borde \<and> ahora_borde \<le> ahora_borde + 0 * un_dia"
    by simp
  note A = ventana_de_eventos_inclusiva[of calendario_borde ahora_borde 0 "''quad_witching''"
             ahora_borde "''SPY''"]
  note B = ventana_de_eventos_inclusiva[of calendario_borde ahora_borde 0 "''quad_witching''"
             "ahora_borde + un_dia" "''SPY''"]
  from A c1 i have 1: "\<exists>e \<in> set (detectar_eventos_proximos calendario_borde ahora_borde 0).
       tipo_evento e = ''quad_witching'' \<and> fecha e = ahora_borde"
    by blast
  from A c1 i have 2:
    "\<exists>e \<in> set (EventsAnalyzer_detectar_eventos_proximos calendario_borde ahora_borde ''SPY'' 0).
       tipo_evento e = ''quad_witching'' \<and> fecha e = ahora_borde"
    by blast
  from B u have 3: "\<not> (\<exists>e \<in> set (detectar_eventos_proximos calendario_borde ahora_borde 0).
       tipo_evento e = ''quad_witching'' \<and> fecha e = ahora_borde + un_dia)"
    by blast
  from B u have 4:
    "\<not> (\<exists>e \<in> set (EventsAnalyzer_detectar_eventos_proximos calendario_borde ahora_borde ''SPY'' 0).
       tipo_evento e = ''quad_witching'' \<and> fecha e = ahora_borde + un_dia)"
    by blast
  from 1 2 3 4 show ?thesis by blast
qed

section \<open>Concentration of open interest\<close>

lemma oi_concentration_de_analyze:
  "filas df \<noteq> [] \<Longrightarrow>
   metrica_oi (OpenInterestAnalyzer_analyze (Some df)) ''oi_concentration'' =
     Some (oi_concentration df)"
  by (simp add: OpenInterestAnalyzer_analyze_def validar_requerido metrica_oi_def oi_basicas_def
      Let_def)

lemma oi_concentration_sin_oi: "suma_oi (filas df) = 0 \<Longrightarrow> oi_concentration df = 0"
  by (simp add: oi_concentration_def)

text \<open>
  C1. The analyzer ranks contracts, not strikes: \<open>nlargest\<close> takes the five rows of the
  table with the largest open interest, and a strike that carries a call and a put (or
  several expirations) is several rows. On twenty strikes of five units each, three in
  the call and two in the put, the analyzer reports 15 where the per-strike
  concentration is 25; on 100 units all at one strike, in six contracts, it reports 90
  where the per-strike concentration is 100.
\<close>

theorem oi_concentration_por_contrato:
  "suma_oi (filas cadena_20_strikes) = 100
   \<and> metrica_oi (OpenInterestAnalyzer_analyze (Some cadena_20_strikes)) ''oi_concentration''
       = Some 15
   \<and> oi_concentration_spec cadena_20_strikes = 25
   \<and> suma_oi (filas cadena_un_strike) = 100
   \<and> metrica_oi (OpenInterestAnalyzer_analyze (Some cadena_un_strike)) ''oi_concentration''
       = Some 90
   \<and> oi_concentration_spec cadena_un_strike = 100"
proof -
  have n20: "filas cadena_20_strikes \<noteq> []"
    by (simp add: cadena_20_strikes_def strikes_20_def)
  have n1: "filas cadena_un_strike \<noteq> []"
    by (simp add: cadena_un_strike_def)
  have t20: "suma_oi (filas cadena_20_strikes) = 100"
    by (simp add: cadena_20_strikes_def strikes_20_def contrato_def suma_oi_def)
  have c20: "oi_concentration cadena_20_strikes = 15"
    by (simp add: oi_concentration_def cadena_20_strikes_def strikes_20_def contrato_def
        nlargest_def suma_oi_def)
  have s20: "oi_concentration_spec cadena_20_strikes = 25"
    by (simp add: oi_concentration_spec_def cadena_20_strikes_def strikes_20_def contrato_def
        groupby_oi_def suma_oi_def)
  have t1: "suma_oi (filas cadena_un_strike) = 100"
    by (simp add: cadena_un_strike_def contrato_def suma_oi_def)
  have c1: "oi_concentration cadena_un_strike = 90"
    by (simp add: oi_concentration_def cadena_un_strike_def contrato_def nlargest_def
        suma_oi_def)
  have s1: "oi_concentration_spec cadena_un_strike = 100"
    by (simp add: oi_concentration_spec_def cadena_un_strike_def contrato_def groupby_oi_def
        suma_oi_def)
  show ?thesis
    unfolding oi_concentration_de_analyze[OF n20] oi_concentration_de_analyze[OF n1]
    using t20 c20 s20 t1 c1 s1 by simp
qed

end
